theory Spec2Isabelle
  imports Complex_Main
begin

section \<open>go-result: the values of the host language\<close>

text \<open>
  The library is two arrow functions of \<^verbatim>\<open>src/index.ts\<close>:
  \<^verbatim>\<open>
  export type Result<S, E> = readonly [S, null] | readonly [null, E];
  export const ok  = <S>(value: S): readonly [S, null] => [value, null] as const;
  export const err = <E>(error: E): readonly [null, E] => [null, error] as const;
  \<close>
  Both are generic with an unconstrained type parameter, so the argument ranges over every
  value of the language. The type annotations, \<^verbatim>\<open>readonly\<close> and \<^verbatim>\<open>as const\<close> are
  erased by the compiler; what runs is an array literal of two elements, which allocates a
  new array object.
\<close>

text \<open>
  A number is a double. The constructors never compute with their argument, so only the
  classification of a number matters here (zero, negative zero and NaN are the falsy
  ones). \<open>Num_Finite 0\<close> is \<open>+0\<close>; \<open>Num_Finite q\<close> for an arbitrary rational \<open>q\<close>
  covers every other finite double (and more).
\<close>

datatype jsnum =
    Num_NaN
  | Num_PosInfinity
  | Num_NegInfinity
  | Num_NegZero
  | Num_Finite rat

type_synonym addr = nat

text \<open>
  A value is a primitive or a reference to an object on the heap. \<open>JNull\<close> is the
  sentinel of the \<^verbatim>\<open>Result\<close> type; \<open>JUndefined\<close> is a different value.
\<close>

datatype jsval =
    JNull
  | JUndefined
  | JBool bool
  | JNum jsnum
  | JBigInt int
  | JStr string
  | JSymbol nat
  | JRef addr

datatype jsobj =
    JArray "jsval list"
  | JObject "(string \<times> jsval) list"

text \<open>The heap is the list of the objects allocated so far; an address is an index.\<close>

type_synonym heap = "jsobj list"

definition alloc :: "jsobj \<Rightarrow> heap \<Rightarrow> addr \<times> heap" where
  "alloc obj h = (length h, h @ [obj])"

section \<open>The two constructors\<close>

text \<open>\<^verbatim>\<open>ok = (value) => [value, null]\<close>\<close>

definition ok :: "jsval \<Rightarrow> heap \<Rightarrow> addr \<times> heap" where
  "ok val h = alloc (JArray [val, JNull]) h"

text \<open>\<^verbatim>\<open>err = (error) => [null, error]\<close>\<close>

definition err :: "jsval \<Rightarrow> heap \<Rightarrow> addr \<times> heap" where
  "err error h = alloc (JArray [JNull, error]) h"

section \<open>Reading a container\<close>

text \<open>
  The elements of the array an address refers to. An address outside the heap and an
  object that is not an array have no elements.
\<close>

fun elements :: "jsobj \<Rightarrow> jsval list" where
  "elements (JArray xs) = xs"
| "elements (JObject ps) = []"

fun container :: "addr \<times> heap \<Rightarrow> jsval list" where
  "container (r, h) = (if r < length h then elements (h ! r) else [])"

text \<open>\<^verbatim>\<open>xs[i]\<close>: reading past the end of an array gives \<^verbatim>\<open>undefined\<close>.\<close>

definition index :: "jsval list \<Rightarrow> nat \<Rightarrow> jsval" where
  "index xs i = (if i < length xs then xs ! i else JUndefined)"

definition position :: "nat \<Rightarrow> addr \<times> heap \<Rightarrow> jsval" where
  "position i res = index (container res) i"

section \<open>How callers read a result\<close>

text \<open>
  The test suite decides the variant with \<^verbatim>\<open>expect(error).toBeNull()\<close> and
  \<^verbatim>\<open>expect(value).toBeNull()\<close>: strict equality with \<^verbatim>\<open>null\<close>.
\<close>

definition toBeNull :: "jsval \<Rightarrow> bool" where
  "toBeNull v = (v = JNull)"

text \<open>
  The README and the tests branch with \<^verbatim>\<open>if (error)\<close> and \<^verbatim>\<open>if (value)\<close>, which
  converts the value to a boolean: \<^verbatim>\<open>undefined\<close>, \<^verbatim>\<open>null\<close>, \<^verbatim>\<open>false\<close>, \<open>+0\<close>,
  \<open>-0\<close>, NaN, \<^verbatim>\<open>0n\<close> and the empty string are falsy, everything else is truthy.
\<close>

fun ToBoolean :: "jsval \<Rightarrow> bool" where
  "ToBoolean JUndefined = False"
| "ToBoolean JNull = False"
| "ToBoolean (JBool b) = b"
| "ToBoolean (JNum Num_NaN) = False"
| "ToBoolean (JNum Num_NegZero) = False"
| "ToBoolean (JNum (Num_Finite q)) = (q \<noteq> 0)"
| "ToBoolean (JNum Num_PosInfinity) = True"
| "ToBoolean (JNum Num_NegInfinity) = True"
| "ToBoolean (JBigInt i) = (i \<noteq> 0)"
| "ToBoolean (JStr s) = (s \<noteq> [])"
| "ToBoolean (JSymbol n) = True"
| "ToBoolean (JRef a) = True"

text \<open>
  The early-return pattern of the README:
  \<^verbatim>\<open>
  const [value, error] = operation();
  if (error) return err(error);  // or handle the error
  // value is type-safe here
  \<close>
  The caller either returns a new failure built from \<open>error\<close>, or goes on with
  \<open>value\<close> as the result of a successful operation.
\<close>

datatype flow =
    Returns "addr \<times> heap"
  | Continues jsval

definition early_return :: "addr \<times> heap \<Rightarrow> flow" where
  "early_return res =
     (let val = position 0 res; error = position 1 res
      in if ToBoolean error then Returns (err error (snd res)) else Continues val)"

text \<open>
  The success-only pattern of the README:
  \<^verbatim>\<open>
  const [value] = divide(10, 2);
  if (value) {
    console.log("Success:", value); // Only runs when operation succeeded
  }
  \<close>
  The result is the list of the lines written to the console, each the list of the
  arguments of one call.
\<close>

definition success_only :: "addr \<times> heap \<Rightarrow> jsval list list" where
  "success_only res =
     (let val = position 0 res
      in if ToBoolean val then [[JStr ''Success:'', val]] else [])"

text \<open>
  The invariant of the data model: of the two positions of a container, exactly one holds a
  value other than the sentinel.
\<close>

definition exactly_one_non_null :: "jsval list \<Rightarrow> bool" where
  "exactly_one_non_null c = ((index c 0 \<noteq> JNull) \<noteq> (index c 1 \<noteq> JNull))"

section \<open>What can happen to a container after it is built\<close>

text \<open>
  The library's own operations are the two constructors. A run of later calls, each with
  its own payload, takes the heap a container lives in to a later heap.
\<close>

datatype call =
    Call_ok jsval
  | Call_err jsval

fun later_calls :: "call list \<Rightarrow> heap \<Rightarrow> heap" where
  "later_calls [] h = h"
| "later_calls (Call_ok v # cs) h = later_calls cs (snd (ok v h))"
| "later_calls (Call_err e # cs) h = later_calls cs (snd (err e h))"

text \<open>
  \<^verbatim>\<open>readonly\<close> and \<^verbatim>\<open>as const\<close> are erased, and neither constructor freezes the array
  it returns, so what a caller holds is an ordinary array. The element assignment
  \<^verbatim>\<open>r[i] = w\<close> on an ordinary array replaces element \<open>i\<close>, or, past the end, extends
  the array up to \<open>i\<close> (the elements in between read as \<^verbatim>\<open>undefined\<close>). Only the
  assignment to an array on the heap is modelled: for any other target the result is
  \<open>None\<close>.
\<close>

definition assign_element :: "addr \<Rightarrow> nat \<Rightarrow> jsval \<Rightarrow> heap \<Rightarrow> heap option" where
  "assign_element r i w h =
     (if r < length h then
        (case h ! r of
           JArray xs \<Rightarrow>
             Some (h[r := JArray (if i < length xs then xs[i := w]
                                  else xs @ replicate (i - length xs) JUndefined @ [w])])
         | JObject ps \<Rightarrow> None)
      else None)"

section \<open>Basic facts\<close>

lemma container_alloc: "container (alloc (JArray xs) h) = xs"
  by (simp add: alloc_def)

lemma container_ok_eq: "container (ok v h) = [v, JNull]"
  by (simp add: ok_def container_alloc)

lemma container_err_eq: "container (err e h) = [JNull, e]"
  by (simp add: err_def container_alloc)

lemma position_ok_0: "position 0 (ok v h) = v"
  by (simp add: position_def index_def container_ok_eq)

lemma position_ok_1: "position (Suc 0) (ok v h) = JNull"
  by (simp add: position_def index_def container_ok_eq)

lemma position_err_0: "position 0 (err e h) = JNull"
  by (simp add: position_def index_def container_err_eq)

lemma position_err_1: "position (Suc 0) (err e h) = e"
  by (simp add: position_def index_def container_err_eq)

lemma exactly_one_ok: "exactly_one_non_null (container (ok v h)) = (v \<noteq> JNull)"
  by (simp add: exactly_one_non_null_def index_def container_ok_eq)

lemma exactly_one_err: "exactly_one_non_null (container (err e h)) = (e \<noteq> JNull)"
  by (simp add: exactly_one_non_null_def index_def container_err_eq)

lemma early_return_err:
  "early_return (err e h) =
     (if ToBoolean e then Returns (err e (snd (err e h))) else Continues JNull)"
  by (simp add: early_return_def Let_def position_err_0 position_err_1)

lemma success_only_ok:
  "success_only (ok v h) = (if ToBoolean v then [[JStr ''Success:'', v]] else [])"
  by (simp add: success_only_def Let_def position_ok_0)

lemma fst_alloc: "fst (alloc obj h) = length h"
  by (simp add: alloc_def)

lemma snd_alloc: "snd (alloc obj h) = h @ [obj]"
  by (simp add: alloc_def)

lemma later_calls_extends: "\<exists>ys. later_calls cs h = h @ ys"
proof (induction cs arbitrary: h)
  case Nil
  show ?case by simp
next
  case (Cons c cs)
  show ?case
  proof (cases c)
    case (Call_ok v)
    obtain ys where "later_calls cs (h @ [JArray [v, JNull]]) = (h @ [JArray [v, JNull]]) @ ys"
      using Cons.IH by blast
    with Call_ok show ?thesis
      by (simp add: ok_def snd_alloc)
  next
    case (Call_err e)
    obtain ys where "later_calls cs (h @ [JArray [JNull, e]]) = (h @ [JArray [JNull, e]]) @ ys"
      using Cons.IH by blast
    with Call_err show ?thesis
      by (simp add: err_def snd_alloc)
  qed
qed

lemma container_later_calls:
  "container (fst (alloc obj h), later_calls cs (snd (alloc obj h))) = elements obj"
proof -
  obtain ys where "later_calls cs (h @ [obj]) = (h @ [obj]) @ ys"
    using later_calls_extends by blast
  then show ?thesis
    by (simp add: fst_alloc snd_alloc nth_append)
qed

lemma assign_element_alloc:
  "assign_element (fst (alloc (JArray xs) h)) i w (snd (alloc (JArray xs) h)) =
     Some (h @ [JArray (if i < length xs then xs[i := w]
                        else xs @ replicate (i - length xs) JUndefined @ [w])])"
  by (simp add: assign_element_def fst_alloc snd_alloc)

section \<open>Claims\<close>

text \<open>
  C1. For every value \<open>V\<close>, the sentinel included, and in every heap, \<open>ok V\<close> returns a
  container of exactly two positions whose position 0 is \<open>V\<close> and whose position 1 is
  the sentinel \<open>null\<close>.
\<close>

theorem ok_positions:
  "container (ok V h) = [V, JNull]
   \<and> length (container (ok V h)) = 2
   \<and> position 0 (ok V h) = V
   \<and> position 1 (ok V h) = JNull"
  by (simp add: position_def index_def container_ok_eq)

text \<open>
  C2. For every value \<open>E\<close>, the sentinel included, and in every heap, \<open>err E\<close> returns a
  container of exactly two positions whose position 0 is the sentinel \<open>null\<close> and whose
  position 1 is \<open>E\<close>.
\<close>

theorem err_positions:
  "container (err E h) = [JNull, E]
   \<and> length (container (err E h)) = 2
   \<and> position 0 (err E h) = JNull
   \<and> position 1 (err E h) = E"
  by (simp add: position_def index_def container_err_eq)

text \<open>
  C3, as stated, fails. The invariant "exactly one position holds a value other than the
  sentinel, except when the sentinel is the success payload" does not hold of
  \<open>err null\<close>: the container is \<open>[null, null]\<close>, neither position holds a value, and
  the payload is a failure payload.
\<close>

theorem err_null_breaks_exactly_one:
  "container (err JNull []) = [JNull, JNull]
   \<and> \<not> exactly_one_non_null (container (err JNull []))"
  by (simp add: exactly_one_non_null_def index_def container_err_eq)

text \<open>
  C3, amended (the variant of the spec's section 8). For every payload other than the
  sentinel, of either constructor, exactly one of the two positions of the container holds
  a value other than the sentinel.
\<close>

theorem exactly_one_unless_null_payload:
  "(V \<noteq> JNull \<longrightarrow> exactly_one_non_null (container (ok V h)))
   \<and> (E \<noteq> JNull \<longrightarrow> exactly_one_non_null (container (err E h)))"
  by (simp add: exactly_one_ok exactly_one_err)

theorem exactly_one_unless_null_payload_witness:
  "JNum (Num_Finite 42) \<noteq> JNull
   \<and> JStr ''division by zero'' \<noteq> JNull
   \<and> exactly_one_non_null (container (ok (JNum (Num_Finite 42)) []))
   \<and> exactly_one_non_null (container (err (JStr ''division by zero'') []))"
  using exactly_one_unless_null_payload
    [of "JNum (Num_Finite 42)" "[]" "JStr ''division by zero''"]
  by simp

text \<open>
  C4, as stated, fails. A container produced by \<open>err\<close> can have the sentinel at
  position 1: \<open>err null\<close> does, and the test of position 1 takes it for a success.
\<close>

theorem err_null_position_1_is_null:
  "position 1 (err JNull []) = JNull \<and> toBeNull (position 1 (err JNull []))"
  by (simp add: toBeNull_def position_err_1)

text \<open>
  C4, amended. For every payload, a container produced by \<open>ok\<close> has the sentinel at
  position 1; for every payload other than the sentinel, a container produced by \<open>err\<close>
  has a value other than the sentinel at position 1. So the test of position 1 tells the
  two variants apart as long as the failure payload is not the sentinel.
\<close>

theorem position_1_discriminates:
  "toBeNull (position 1 (ok V h))
   \<and> (E \<noteq> JNull \<longrightarrow> \<not> toBeNull (position 1 (err E h)))"
  by (simp add: toBeNull_def position_ok_1 position_err_1)

theorem position_1_discriminates_witness:
  "JStr ''not_found'' \<noteq> JNull
   \<and> toBeNull (position 1 (ok (JNum (Num_Finite 5)) []))
   \<and> \<not> toBeNull (position 1 (err (JStr ''not_found'') []))"
  using position_1_discriminates [of "JNum (Num_Finite 5)" "[]" "JStr ''not_found''"]
  by simp

text \<open>
  C5. Both constructors return for every value and every heap, without looking at the
  argument: the result is the address of a new object, the heap grows by that one object,
  which is the two-element array, and every object that was on the heap before the call is
  unchanged. Nothing in either function throws, so the model has no error result to reach.
\<close>

theorem constructors_total_and_pure:
  "(\<exists>r h'. ok V h = (r, h'))
   \<and> fst (ok V h) = length h
   \<and> length (snd (ok V h)) = Suc (length h)
   \<and> take (length h) (snd (ok V h)) = h
   \<and> snd (ok V h) ! fst (ok V h) = JArray [V, JNull]
   \<and> (\<exists>r h'. err E h = (r, h'))
   \<and> fst (err E h) = length h
   \<and> length (snd (err E h)) = Suc (length h)
   \<and> take (length h) (snd (err E h)) = h
   \<and> snd (err E h) ! fst (err E h) = JArray [JNull, E]"
  by (simp add: ok_def err_def fst_alloc snd_alloc)

text \<open>
  C6. The container a constructor returns depends on its argument only: called with the
  same value in two arbitrary heaps (that is, after any other calls), \<open>ok\<close> returns
  containers with equal positions, and so does \<open>err\<close>. Two calls in a row return two
  different objects (they are not identical) which, read in the final heap, are equal
  position by position.
\<close>

theorem constructors_deterministic:
  "container (ok V h1) = container (ok V h2)
   \<and> container (err E h1) = container (err E h2)
   \<and> fst (ok V (snd (ok V h))) \<noteq> fst (ok V h)
   \<and> container (fst (ok V h), snd (ok V (snd (ok V h)))) = container (ok V (snd (ok V h)))
   \<and> fst (err E (snd (err E h))) \<noteq> fst (err E h)
   \<and> container (fst (err E h), snd (err E (snd (err E h)))) = container (err E (snd (err E h)))"
  by (simp add: ok_def err_def alloc_def nth_append)

text \<open>
  C7, as stated, fails. The array \<open>ok 1\<close> returns is not frozen: the assignment
  \<^verbatim>\<open>r[0] = 2\<close> after the constructor has returned succeeds, and position 0 of the same
  container is then 2. In the same way \<^verbatim>\<open>r[1] = null\<close> on the container of
  \<open>err ''failed''\<close> replaces its position 1.
\<close>

theorem assignment_changes_container:
  "ok (JNum (Num_Finite 1)) [] = (0, [JArray [JNum (Num_Finite 1), JNull]])
   \<and> position 0 (ok (JNum (Num_Finite 1)) []) = JNum (Num_Finite 1)
   \<and> assign_element 0 0 (JNum (Num_Finite 2)) (snd (ok (JNum (Num_Finite 1)) []))
       = Some [JArray [JNum (Num_Finite 2), JNull]]
   \<and> position 0 (0, [JArray [JNum (Num_Finite 2), JNull]]) = JNum (Num_Finite 2)
   \<and> err (JStr ''failed'') [] = (0, [JArray [JNull, JStr ''failed'']])
   \<and> position 1 (err (JStr ''failed'') []) = JStr ''failed''
   \<and> assign_element 0 1 JNull (snd (err (JStr ''failed'') []))
       = Some [JArray [JNull, JNull]]
   \<and> position 1 (0, [JArray [JNull, JNull]]) = JNull"
  by (simp add: ok_def err_def alloc_def assign_element_def position_def index_def)

text \<open>
  C7, amended. No operation of the library changes a container after it is built: for
  every container returned by \<open>ok\<close> or \<open>err\<close>, in every heap, and after every run of
  later calls of \<open>ok\<close> and \<open>err\<close>, both positions are what the constructor put there.
\<close>

theorem later_calls_keep_container:
  "container (fst (ok V h), later_calls cs (snd (ok V h))) = [V, JNull]
   \<and> position 0 (fst (ok V h), later_calls cs (snd (ok V h))) = V
   \<and> position 1 (fst (ok V h), later_calls cs (snd (ok V h))) = JNull
   \<and> container (fst (err E h), later_calls cs (snd (err E h))) = [JNull, E]
   \<and> position 0 (fst (err E h), later_calls cs (snd (err E h))) = JNull
   \<and> position 1 (fst (err E h), later_calls cs (snd (err E h))) = E"
proof -
  have kept_ok: "container (fst (ok V h), later_calls cs (snd (ok V h))) = [V, JNull]"
    by (simp only: ok_def container_later_calls elements.simps)
  have kept_err: "container (fst (err E h), later_calls cs (snd (err E h))) = [JNull, E]"
    by (simp only: err_def container_later_calls elements.simps)
  show ?thesis
    unfolding position_def kept_ok kept_err
    by (simp add: index_def)
qed

text \<open>
  C8. \<open>ok null\<close> is the container \<open>[null, null]\<close>. The test of position 1 finds the
  sentinel and reports a success, which is right; the test of position 0 finds the sentinel
  too and reports that no value is present, although the container is a success.
\<close>

theorem ok_null_all_sentinel:
  "container (ok JNull h) = [JNull, JNull]
   \<and> toBeNull (position 1 (ok JNull h))
   \<and> toBeNull (position 0 (ok JNull h))"
  by (simp add: toBeNull_def position_ok_0 position_ok_1 container_ok_eq)

text \<open>
  C9. At the sentinel the two constructors coincide: in every heap \<open>ok null\<close> and
  \<open>err null\<close> return the same address and the same heap, hence the same container
  \<open>[null, null]\<close>, and whatever a consumer computes from the result is the same for
  both. The map from a tagged payload to the container is therefore not injective.
\<close>

theorem ok_null_eq_err_null:
  "ok JNull h = err JNull h
   \<and> container (ok JNull h) = [JNull, JNull]
   \<and> container (err JNull h) = [JNull, JNull]
   \<and> observe (ok JNull h) = observe (err JNull h)
   \<and> \<not> inj (\<lambda>p. case p of Inl v \<Rightarrow> container (ok v h) | Inr e \<Rightarrow> container (err e h))"
proof -
  have same: "ok JNull h = err JNull h"
    by (simp add: ok_def err_def)
  let ?build = "\<lambda>p. case p of Inl v \<Rightarrow> container (ok v h) | Inr e \<Rightarrow> container (err e h)"
  have "?build (Inl JNull) = ?build (Inr JNull)"
    by (simp add: container_ok_eq container_err_eq)
  moreover have "(Inl JNull :: jsval + jsval) \<noteq> Inr JNull"
    by simp
  ultimately have "\<not> inj ?build"
    by (metis injD)
  with same show ?thesis
    by (simp add: container_ok_eq container_err_eq)
qed

text \<open>
  C10. Truthiness is not the variant. The failure payloads \<open>0\<close>, the empty string and
  \<^verbatim>\<open>false\<close> give a container whose position 1 is falsy, and the early-return pattern
  goes on with it as with a success, holding \<open>null\<close> as its value. The success payload
  \<open>0\<close> gives a container whose position 0 is falsy, and the success-only pattern writes
  nothing for it. For a truthy payload both patterns do what the README says.
\<close>

theorem truthiness_is_not_the_variant:
  "\<not> ToBoolean (position 1 (err (JNum (Num_Finite 0)) h))
   \<and> early_return (err (JNum (Num_Finite 0)) h) = Continues JNull
   \<and> \<not> ToBoolean (position 1 (err (JStr []) h))
   \<and> early_return (err (JStr []) h) = Continues JNull
   \<and> \<not> ToBoolean (position 1 (err (JBool False) h))
   \<and> early_return (err (JBool False) h) = Continues JNull
   \<and> \<not> ToBoolean (position 0 (ok (JNum (Num_Finite 0)) h))
   \<and> success_only (ok (JNum (Num_Finite 0)) h) = []
   \<and> early_return (err (JStr ''division by zero'') h)
       = Returns (err (JStr ''division by zero'') (snd (err (JStr ''division by zero'') h)))
   \<and> success_only (ok (JNum (Num_Finite 5)) h) = [[JStr ''Success:'', JNum (Num_Finite 5)]]"
  by (simp add: early_return_err success_only_ok position_ok_0 position_err_1)

end
